theory Spec2Isabelle
  imports Main "HOL-Library.Word"
begin

unbundle bit_operations_syntax

section \<open>The device session: pyscsi/pyscsi/scsi_device.py\<close>

text \<open>
  A Python \<^verbatim>\<open>bytearray\<close> is a list of 8-bit words. The exceptions that can leave
  \<^verbatim>\<open>SCSIDevice\<close> are the values of one datatype:
  \<^item> \<open>NotImplementedError\<close>: raised by \<^verbatim>\<open>__init__\<close> (line 77);
  \<^item> \<open>TypeError\<close>: what Python raises when line 138 calls the constant
    \<^verbatim>\<open>NotImplemented\<close>, which is not callable;
  \<^item> \<open>CheckCondition\<close> and \<open>SCSISGIOError\<close>: the classes the metaclass of
    \<^verbatim>\<open>scsi_exception\<close> attaches to the device class (lines 151 and 153); the first
    is built from the sense buffer;
  \<^item> \<open>OSError\<close>: whatever \<^verbatim>\<open>os.stat\<close> and \<^verbatim>\<open>linux_sgio\<close> raise on their own.
\<close>

type_synonym byte = "8 word"
type_synonym bytes = "byte list"

datatype py_exception =
    NotImplementedError string
  | TypeError string
  | OSError string
  | CheckCondition bytes
  | SCSISGIOError

text \<open>The three transfer directions of \<^verbatim>\<open>linux_sgio\<close> named in lines 136 to 142.\<close>

datatype dxfer = DXFER_NONE | DXFER_FROM_DEV | DXFER_TO_DEV

text \<open>
  The attributes of a \<^verbatim>\<open>SCSIDevice\<close> that \<^verbatim>\<open>__init__\<close>, \<^verbatim>\<open>open\<close>,
  \<^verbatim>\<open>close\<close> and \<^verbatim>\<open>execute\<close> read or write (\<^verbatim>\<open>_file_name\<close>,
  \<^verbatim>\<open>_read_write\<close>, \<^verbatim>\<open>_fd\<close>, \<^verbatim>\<open>_ino\<close>, \<^verbatim>\<open>_detect_replugged\<close>;
  a leading underscore is not an Isabelle name). \<^verbatim>\<open>_fd\<close> and \<^verbatim>\<open>_ino\<close> start as
  \<^verbatim>\<open>None\<close>. The opcode table and the device type are plain storage and take no part
  in these methods.
\<close>

record SCSIDevice =
  file_name :: string
  read_write :: bool
  fd :: "int option"
  ino :: "int option"
  detect_replugged :: bool

text \<open>
  The command a device executes: the attributes \<^verbatim>\<open>cdb\<close>, \<^verbatim>\<open>dataout\<close>,
  \<^verbatim>\<open>datain\<close> and \<^verbatim>\<open>sense\<close> that \<^verbatim>\<open>execute\<close> reads.
\<close>

record SCSICommand =
  cdb :: bytes
  dataout :: bytes
  datain :: bytes
  sense :: bytes

text \<open>
  The collaborators are outside the repository: \<^verbatim>\<open>linux_sgio.open\<close>,
  \<^verbatim>\<open>linux_sgio.close\<close>, \<^verbatim>\<open>linux_sgio.execute\<close>, \<^verbatim>\<open>os.stat\<close>, the flag
  \<^verbatim>\<open>_has_sgio\<close> (whether the import of line 24 succeeded) and the two status constants
  of \<^verbatim>\<open>scsi_enum_command.SCSI_STATUS\<close> that lines 150 and 152 compare with. They are
  parameters of the model: each call takes the state of the outside world \<open>'w\<close> and
  returns either the exception it raises or its result, with the world after the call.
  \<^verbatim>\<open>linux_sgio.execute\<close> fills \<^verbatim>\<open>datain\<close> and \<^verbatim>\<open>sense\<close> in place: its result
  is the status with the two buffers as it left them.
\<close>

record 'w transport =
  has_sgio :: bool
  sgio_open :: "string \<Rightarrow> bool \<Rightarrow> 'w \<Rightarrow> (py_exception + int) \<times> 'w"
  sgio_close :: "int option \<Rightarrow> 'w \<Rightarrow> (py_exception + unit) \<times> 'w"
  sgio_execute :: "int option \<Rightarrow> dxfer \<Rightarrow> bytes \<Rightarrow> bytes \<Rightarrow> bytes \<Rightarrow> bytes \<Rightarrow> 'w
                    \<Rightarrow> (py_exception + int \<times> bytes \<times> bytes) \<times> 'w"
  os_stat_ino :: "string \<Rightarrow> 'w \<Rightarrow> (py_exception + int) \<times> 'w"
  CHECK_CONDITION :: int
  SGIO_ERROR :: int

text \<open>
  Every call of a collaborator is logged with its arguments and what it gave back, oldest
  first, so that a statement can say which calls a method made and in what order.
\<close>

datatype event =
    EvStat string "py_exception + int"
  | EvOpen string bool "py_exception + int"
  | EvClose "int option" "py_exception + unit"
  | EvExecute "int option" dxfer bytes bytes bytes bytes "py_exception + int \<times> bytes \<times> bytes"

fun is_close :: "event \<Rightarrow> bool" where
  "is_close (EvClose f r) = True"
| "is_close e = False"

fun is_open :: "event \<Rightarrow> bool" where
  "is_open (EvOpen p rw r) = True"
| "is_open e = False"

fun is_execute :: "event \<Rightarrow> bool" where
  "is_execute (EvExecute f d c out inp sn r) = True"
| "is_execute e = False"

text \<open>\<^verbatim>\<open>get_inode\<close> (lines 33 and 34): \<^verbatim>\<open>os.stat(file).st_ino\<close>.\<close>

definition get_inode :: "'w transport \<Rightarrow> string \<Rightarrow> 'w \<Rightarrow> (py_exception + int) \<times> 'w \<times> event list" where
  "get_inode T file w =
     (case os_stat_ino T file w of (r, w') \<Rightarrow> (r, w', [EvStat file r]))"

text \<open>
  \<^verbatim>\<open>_is_replugged\<close> (lines 106 to 108): the live inode differs from the recorded one.
  An \<^verbatim>\<open>int\<close> never equals \<^verbatim>\<open>None\<close>.
\<close>

definition is_replugged :: "'w transport \<Rightarrow> SCSIDevice \<Rightarrow> 'w \<Rightarrow> (py_exception + bool) \<times> 'w \<times> event list" where
  "is_replugged T dev w =
     (case get_inode T (file_name dev) w of
        (Inl e, w', tr) \<Rightarrow> (Inl e, w', tr)
      | (Inr i, w', tr) \<Rightarrow> (Inr (Some i \<noteq> ino dev), w', tr))"

text \<open>
  \<^verbatim>\<open>open\<close> (lines 110 to 119). The device is returned also when a call raises: the
  assignment to \<^verbatim>\<open>_fd\<close> stays when the \<^verbatim>\<open>get_inode\<close> after it raises.
\<close>

definition open_dev :: "'w transport \<Rightarrow> SCSIDevice \<Rightarrow> 'w \<Rightarrow> (py_exception + unit) \<times> SCSIDevice \<times> 'w \<times> event list" where
  "open_dev T dev w =
     (case sgio_open T (file_name dev) (read_write dev) w of
        (Inl e, w1) \<Rightarrow> (Inl e, dev, w1, [EvOpen (file_name dev) (read_write dev) (Inl e)])
      | (Inr f, w1) \<Rightarrow>
          (let dev1 = dev\<lparr>fd := Some f\<rparr>;
               tr1 = [EvOpen (file_name dev) (read_write dev) (Inr f)]
           in case get_inode T (file_name dev1) w1 of
                (Inl e, w2, tr2) \<Rightarrow> (Inl e, dev1, w2, tr1 @ tr2)
              | (Inr i, w2, tr2) \<Rightarrow> (Inr (), dev1\<lparr>ino := Some i\<rparr>, w2, tr1 @ tr2)))"

text \<open>\<^verbatim>\<open>close\<close> (lines 121 and 122).\<close>

definition close_dev :: "'w transport \<Rightarrow> SCSIDevice \<Rightarrow> 'w \<Rightarrow> (py_exception + unit) \<times> SCSIDevice \<times> 'w \<times> event list" where
  "close_dev T dev w =
     (case sgio_close T (fd dev) w of (r, w1) \<Rightarrow> (r, dev, w1, [EvClose (fd dev) r]))"

text \<open>
  \<^verbatim>\<open>__init__\<close> (lines 56 to 77). \<^verbatim>\<open>device[:5]\<close> is the first five characters, or the
  whole string when it is shorter. The prefix compared with is ASCII, so bytes and code
  points agree on it. No object exists when the constructor raises.
\<close>

definition init :: "'w transport \<Rightarrow> string \<Rightarrow> bool \<Rightarrow> bool \<Rightarrow> 'w \<Rightarrow> (py_exception + SCSIDevice) \<times> 'w \<times> event list" where
  "init T device readwrite detect w =
     (let dev = \<lparr>file_name = device, read_write = readwrite, fd = None, ino = None,
                 detect_replugged = detect\<rparr>
      in if has_sgio T \<and> take 5 device = ''/dev/''
         then (case open_dev T dev w of
                 (Inl e, dev1, w1, tr) \<Rightarrow> (Inl e, w1, tr)
               | (Inr u, dev1, w1, tr) \<Rightarrow> (Inr dev1, w1, tr))
         else (Inl (NotImplementedError (''No backend implemented for '' @ device)), w, []))"

text \<open>
  Lines 130 to 134 of \<^verbatim>\<open>execute\<close>. \<^verbatim>\<open>and\<close> is lazy: the probe runs only when
  detection is on. In \<^verbatim>\<open>try: self.close() finally: self.open()\<close> the \<^verbatim>\<open>finally\<close>
  block always runs; when it raises, its exception is the one that leaves the statement,
  and when it returns, an exception pending from \<^verbatim>\<open>close\<close> is raised again.
\<close>

definition close_finally_open :: "'w transport \<Rightarrow> SCSIDevice \<Rightarrow> 'w \<Rightarrow> (py_exception + unit) \<times> SCSIDevice \<times> 'w \<times> event list" where
  "close_finally_open T dev w =
     (case close_dev T dev w of
        (rc, dev1, w1, tr1) \<Rightarrow>
          (case open_dev T dev1 w1 of
             (Inl e, dev2, w2, tr2) \<Rightarrow> (Inl e, dev2, w2, tr1 @ tr2)
           | (Inr u, dev2, w2, tr2) \<Rightarrow> (rc, dev2, w2, tr1 @ tr2)))"

definition execute_replug :: "'w transport \<Rightarrow> SCSIDevice \<Rightarrow> 'w \<Rightarrow> (py_exception + unit) \<times> SCSIDevice \<times> 'w \<times> event list" where
  "execute_replug T dev w =
     (if detect_replugged dev
      then (case is_replugged T dev w of
              (Inl e, w1, tr1) \<Rightarrow> (Inl e, dev, w1, tr1)
            | (Inr replugged, w1, tr1) \<Rightarrow>
                (if replugged
                 then (case close_finally_open T dev w1 of
                         (r, dev2, w2, tr2) \<Rightarrow> (r, dev2, w2, tr1 @ tr2))
                 else (Inr (), dev, w1, tr1)))
      else (Inr (), dev, w, []))"

text \<open>
  Lines 136 to 153 of \<^verbatim>\<open>execute\<close>. \<^verbatim>\<open>len(b)\<close> is true for a non-empty buffer. Line
  138 calls \<^verbatim>\<open>NotImplemented\<close>, a constant that is not callable, so what is raised
  there is the \<^verbatim>\<open>TypeError\<close> of that call (its message is Python's, without the
  quotation marks). When the transport raises, the command is returned as it was passed;
  when it returns, \<^verbatim>\<open>datain\<close> and \<^verbatim>\<open>sense\<close> are what it left in them, and the
  exception of line 151 is built from that sense buffer.
\<close>

definition transfer_direction :: "SCSICommand \<Rightarrow> dxfer" where
  "transfer_direction cmd =
     (if datain cmd \<noteq> [] then DXFER_FROM_DEV
      else if dataout cmd \<noteq> [] then DXFER_TO_DEV
      else DXFER_NONE)"

definition execute_submit :: "'w transport \<Rightarrow> SCSIDevice \<Rightarrow> SCSICommand \<Rightarrow> 'w \<Rightarrow> (py_exception + unit) \<times> SCSICommand \<times> 'w \<times> event list" where
  "execute_submit T dev cmd w =
     (if datain cmd \<noteq> [] \<and> dataout cmd \<noteq> []
      then (Inl (TypeError ''NotImplementedType object is not callable''), cmd, w, [])
      else
        (let dir = transfer_direction cmd in
         case sgio_execute T (fd dev) dir (cdb cmd) (dataout cmd) (datain cmd) (sense cmd) w of
           (Inl e, w1) \<Rightarrow>
             (Inl e, cmd, w1,
              [EvExecute (fd dev) dir (cdb cmd) (dataout cmd) (datain cmd) (sense cmd) (Inl e)])
         | (Inr (status, din, sns), w1) \<Rightarrow>
             (let cmd1 = cmd\<lparr>datain := din, sense := sns\<rparr>;
                  tr = [EvExecute (fd dev) dir (cdb cmd) (dataout cmd) (datain cmd) (sense cmd)
                          (Inr (status, din, sns))]
              in if status = CHECK_CONDITION T then (Inl (CheckCondition (sense cmd1)), cmd1, w1, tr)
                 else if status = SGIO_ERROR T then (Inl SCSISGIOError, cmd1, w1, tr)
                 else (Inr (), cmd1, w1, tr))))"

text \<open>
  \<^verbatim>\<open>execute\<close> (lines 124 to 153): what it raises or that it returns, the device and
  the command as it leaves them, the world, and the collaborator calls it made.
\<close>

record 'w outcome =
  result :: "py_exception + unit"
  device :: SCSIDevice
  command :: SCSICommand
  world :: 'w
  calls :: "event list"

definition execute :: "'w transport \<Rightarrow> SCSIDevice \<Rightarrow> SCSICommand \<Rightarrow> 'w \<Rightarrow> 'w outcome" where
  "execute T dev cmd w =
     (case execute_replug T dev w of
        (Inl e, dev1, w1, tr1) \<Rightarrow>
          \<lparr>result = Inl e, device = dev1, command = cmd, world = w1, calls = tr1\<rparr>
      | (Inr u, dev1, w1, tr1) \<Rightarrow>
          (case execute_submit T dev1 cmd w1 of
             (r, cmd1, w2, tr2) \<Rightarrow>
               \<lparr>result = r, device = dev1, command = cmd1, world = w2, calls = tr1 @ tr2\<rparr>))"

text \<open>
  The Status Mapper as section 4.4 of the specification words it, to compare with what
  lines 150 to 153 do: a code is a success when it is the success code, a check condition
  when it is the check-condition code, and a transport failure otherwise.
  \<^verbatim>\<open>scsi_device.py\<close> names no success code, so it is an argument here.
\<close>

datatype status_class = Success | CheckConditionStatus | TransportFailure

definition status_mapper_spec :: "int \<Rightarrow> int \<Rightarrow> int \<Rightarrow> status_class" where
  "status_mapper_spec good check_condition status =
     (if status = good then Success
      else if status = check_condition then CheckConditionStatus
      else TransportFailure)"

section \<open>The field codec\<close>

text \<open>
  The codec itself (\<^verbatim>\<open>SCSICommand.build_cdb\<close>, \<^verbatim>\<open>marshall_datain\<close>,
  \<^verbatim>\<open>unmarshall_datain\<close> and the helpers they call) is not among the sources: only a
  layout table and callers are. Its definitions below follow sections 3 and 4.1 of the
  specification. Integers are Python's, unbounded, so \<open>int\<close>; a field of a layout is
  its bit-mask with its byte offset, and a layout is the ordered table of its named fields.
\<close>

datatype codec_error = ConfigurationError

type_synonym field = "int \<times> nat"
type_synonym layout = "(string \<times> field) list"

text \<open>
  Modelled from the spec: the number of bytes a field spans, missing with the codec. A
  field is read and written as one big-endian integer over the bytes its mask needs,
  starting at its byte offset: one byte for a mask up to 0xff, one more for every further
  eight bits.
\<close>

function mask_bytes :: "int \<Rightarrow> nat" where
  "mask_bytes m = (if m \<le> 255 then 1 else Suc (mask_bytes (drop_bit 8 m)))"
  by pat_completeness auto
termination
  by (relation "measure nat") (auto simp: drop_bit_eq_div)

text \<open>
  Modelled from the spec: the bit position of a field within its containing bytes, missing
  with the codec: the number of zero bits below the lowest set bit of the mask.
\<close>

function mask_shift :: "int \<Rightarrow> nat" where
  "mask_shift m = (if m \<le> 0 \<or> odd m then 0 else Suc (mask_shift (drop_bit 1 m)))"
  by pat_completeness auto
termination
  by (relation "measure nat") (auto simp: drop_bit_eq_div)

text \<open>
  Modelled from the spec: the width of a field, missing with the codec. It is implicit,
  derived from the mask: the number of bits from the lowest set bit of the mask up to its
  highest.
\<close>

function bit_length :: "int \<Rightarrow> nat" where
  "bit_length m = (if m \<le> 0 then 0 else Suc (bit_length (drop_bit 1 m)))"
  by pat_completeness auto
termination
  by (relation "measure nat") (auto simp: drop_bit_eq_div)

definition field_width :: "int \<Rightarrow> nat" where
  "field_width m = bit_length (drop_bit (mask_shift m) m)"

declare mask_bytes.simps [simp del] mask_shift.simps [simp del] bit_length.simps [simp del]

text \<open>
  Modelled from the spec: the big-endian byte order of a multi-byte field, missing with the
  codec: the most significant of the \<open>n\<close> bytes comes first.
\<close>

fun int_to_ba :: "nat \<Rightarrow> int \<Rightarrow> bytes" where
  "int_to_ba 0 x = []"
| "int_to_ba (Suc n) x = int_to_ba n (drop_bit 8 x) @ [word_of_int x]"

definition ba_to_int :: "bytes \<Rightarrow> int" where
  "ba_to_int bs = foldl (\<lambda>acc b. acc * 256 + uint b) 0 bs"

text \<open>
  Modelled from the spec: how a value enters and leaves a field, missing with the codec.
  Packing masks the value to the field (the bits of the mask moved down to bit 0) and
  shifts it to the field's bit position; unpacking extracts the bits with the mask and
  shifts them right into the canonical position.
\<close>

definition encode_field :: "int \<Rightarrow> int \<Rightarrow> int" where
  "encode_field m v = push_bit (mask_shift m) (v AND drop_bit (mask_shift m) m)"

definition decode_field :: "int \<Rightarrow> int \<Rightarrow> int" where
  "decode_field m x = drop_bit (mask_shift m) (x AND m)"

text \<open>
  Modelled from the spec: the write of a field into the buffer, missing with the codec.
  The encoded bytes are OR-combined into the bytes the buffer already holds at the
  field's offset. A zero-width field (a mask without a set bit) and a field that reaches
  beyond the buffer are configuration errors.
\<close>

definition or_bytes :: "bytes \<Rightarrow> nat \<Rightarrow> bytes \<Rightarrow> bytes" where
  "or_bytes buf off bs =
     take off buf @ map2 (OR) (take (length bs) (drop off buf)) bs @ drop (off + length bs) buf"

definition pack_field :: "field \<Rightarrow> int \<Rightarrow> bytes \<Rightarrow> codec_error + bytes" where
  "pack_field f v buf =
     (case f of (m, off) \<Rightarrow>
        if m \<le> 0 then Inl ConfigurationError
        else if length buf < off + mask_bytes m then Inl ConfigurationError
        else Inr (or_bytes buf off (int_to_ba (mask_bytes m) (encode_field m v))))"

text \<open>
  Modelled from the spec: \<^verbatim>\<open>Pack(layout, values, out_buffer)\<close>, missing with the codec.
  Every field of the layout is written, a field without a value as 0; a value for a name
  the layout does not have is a configuration error. The values are a table with one
  entry per name, as the keyword arguments of \<^verbatim>\<open>build_cdb\<close> are.
\<close>

definition field_value :: "(string \<times> int) list \<Rightarrow> string \<Rightarrow> int" where
  "field_value vals name = (case map_of vals name of None \<Rightarrow> 0 | Some v \<Rightarrow> v)"

fun pack_fields :: "layout \<Rightarrow> (string \<times> int) list \<Rightarrow> bytes \<Rightarrow> codec_error + bytes" where
  "pack_fields [] vals buf = Inr buf"
| "pack_fields ((name, f) # rest) vals buf =
     (case pack_field f (field_value vals name) buf of
        Inl e \<Rightarrow> Inl e
      | Inr buf1 \<Rightarrow> pack_fields rest vals buf1)"

definition Pack :: "layout \<Rightarrow> (string \<times> int) list \<Rightarrow> bytes \<Rightarrow> codec_error + bytes" where
  "Pack layout vals buf =
     (if list_all (\<lambda>name. name \<in> set (map fst layout)) (map fst vals)
      then pack_fields layout vals buf
      else Inl ConfigurationError)"

text \<open>
  Modelled from the spec: \<^verbatim>\<open>Unpack(layout, in_buffer)\<close>, missing with the codec: for
  each field of the layout, in its order, the name with the integer read from the buffer.
\<close>

definition unpack_field :: "field \<Rightarrow> bytes \<Rightarrow> codec_error + int" where
  "unpack_field f buf =
     (case f of (m, off) \<Rightarrow>
        if m \<le> 0 then Inl ConfigurationError
        else if length buf < off + mask_bytes m then Inl ConfigurationError
        else Inr (decode_field m (ba_to_int (take (mask_bytes m) (drop off buf)))))"

fun Unpack :: "layout \<Rightarrow> bytes \<Rightarrow> codec_error + (string \<times> int) list" where
  "Unpack [] buf = Inr []"
| "Unpack ((name, f) # rest) buf =
     (case unpack_field f buf of
        Inl e \<Rightarrow> Inl e
      | Inr v \<Rightarrow> (case Unpack rest buf of Inl e \<Rightarrow> Inl e | Inr r \<Rightarrow> Inr ((name, v) # r)))"

text \<open>
  Modelled from the spec: the well-formed layouts of section 3, missing with the codec.
  The names are distinct (a layout is a mapping); every mask has a set bit and determines
  a width, that is, its set bits are one run of \<open>field_width\<close> ones; and the buffer of
  \<open>n\<close> bytes is sized for every field.
\<close>

definition contiguous_mask :: "int \<Rightarrow> bool" where
  "contiguous_mask m = (drop_bit (mask_shift m) m = 2 ^ field_width m - 1)"

definition wf_field :: "nat \<Rightarrow> field \<Rightarrow> bool" where
  "wf_field n f = (case f of (m, off) \<Rightarrow> 0 < m \<and> contiguous_mask m \<and> off + mask_bytes m \<le> n)"

definition wf_layout :: "layout \<Rightarrow> nat \<Rightarrow> bool" where
  "wf_layout layout n = (distinct (map fst layout) \<and> list_all (wf_field n) (map snd layout))"

text \<open>The integer a field holds in a buffer, where nothing is checked.\<close>

definition read_field :: "field \<Rightarrow> bytes \<Rightarrow> int" where
  "read_field f buf =
     (case f of (m, off) \<Rightarrow> decode_field m (ba_to_int (take (mask_bytes m) (drop off buf))))"

subsection \<open>Layouts\<close>

text \<open>
  \<^verbatim>\<open>PositionToElement._cdb_bits\<close> (pyscsi/pyscsi/scsi_cdb_positiontoelement.py, lines
  30 to 33): each name with its mask and byte offset, in the order of the table.
\<close>

definition PositionToElement_cdb_bits :: layout where
  "PositionToElement_cdb_bits =
     [(''opcode'', (0xff, 0)),
      (''medium_transport_address'', (0xffff, 2)),
      (''destination_address'', (0xffff, 4)),
      (''invert'', (0x01, 8))]"

text \<open>
  Two layouts for concrete runs. The first is one under which the sixteen bytes that the
  mock device of tests/test_unmarshall_readcapacity16.py returns (lines 12 to 18) decode
  to the values the test asserts (lines 24 to 32); the table the test really uses is in
  \<^verbatim>\<open>scsi_cdb_readcapacity16.py\<close>, which is not among the sources. It has fields that
  share a byte and a 14-bit field across two bytes. The second is a single 8-bit field.
\<close>

definition readcapacity16_datain_bits :: layout where
  "readcapacity16_datain_bits =
     [(''returned_lba'', (0xffffffffffffffff, 0)),
      (''block_length'', (0xffffffff, 8)),
      (''p_type'', (0x0e, 12)),
      (''prot_en'', (0x01, 12)),
      (''p_i_exponent'', (0xf0, 13)),
      (''lbppbe'', (0x0f, 13)),
      (''lbpme'', (0x80, 14)),
      (''lbprz'', (0x40, 14)),
      (''lowest_aligned_lba'', (0x3fff, 14))]"

definition one_byte_layout :: layout where
  "one_byte_layout = [(''f'', (0xff, 0))]"

section \<open>Fixtures\<close>

subsection \<open>A scripted transport for concrete runs\<close>

text \<open>
  A transport whose four calls give back fixed results, with the status codes of the SCSI
  architecture model (CHECK CONDITION is 0x02) and 0xff for the transport's own error; a
  device opened on \<^verbatim>\<open>/dev/sg0\<close> with handle 3 and inode 5; an INQUIRY-like command
  that reads four bytes, and one that asks for a transfer in both directions.
\<close>

definition mock_sgio :: "(py_exception + unit) \<Rightarrow> (py_exception + int) \<Rightarrow> (py_exception + int)
                          \<Rightarrow> (py_exception + int \<times> bytes \<times> bytes) \<Rightarrow> unit transport" where
  "mock_sgio close_r open_r stat_r exec_r =
     \<lparr>has_sgio = True,
      sgio_open = (\<lambda>p rw w. (open_r, w)),
      sgio_close = (\<lambda>f w. (close_r, w)),
      sgio_execute = (\<lambda>f d c out inp sn w. (exec_r, w)),
      os_stat_ino = (\<lambda>p w. (stat_r, w)),
      CHECK_CONDITION = 2,
      SGIO_ERROR = 255\<rparr>"

definition sg0 :: SCSIDevice where
  "sg0 = \<lparr>file_name = ''/dev/sg0'', read_write = False, fd = Some 3, ino = Some 5,
           detect_replugged = True\<rparr>"

definition cmd_in :: SCSICommand where
  "cmd_in = \<lparr>cdb = [0x12, 0, 0, 0, 4, 0], dataout = [], datain = [0, 0, 0, 0], sense = [0, 0]\<rparr>"

definition cmd_both :: SCSICommand where
  "cmd_both = \<lparr>cdb = [0x12, 0, 0, 0, 4, 0], dataout = [9], datain = [0, 0, 0, 0], sense = [0, 0]\<rparr>"

section \<open>Properties of the device session\<close>

lemmas run_defs = execute_def execute_replug_def is_replugged_def get_inode_def
  close_finally_open_def close_dev_def open_dev_def execute_submit_def transfer_direction_def
  mock_sgio_def sg0_def cmd_in_def cmd_both_def Let_def

subsection \<open>The collaborator calls of each method\<close>

lemma get_inode_calls: "get_inode T p w = (r, w1, tr) \<Longrightarrow> tr = [EvStat p r]"
  by (auto simp: get_inode_def split: prod.splits)

lemma close_dev_calls:
  "close_dev T dev w = (r, dev1, w1, tr) \<Longrightarrow> tr = [EvClose (fd dev) r] \<and> dev1 = dev"
  by (auto simp: close_dev_def split: prod.splits)

lemma open_dev_calls:
  "open_dev T dev w = (r, dev1, w1, tr) \<Longrightarrow>
     \<exists>ro rest. tr = EvOpen (file_name dev) (read_write dev) ro # rest \<and>
       (\<forall>e\<in>set rest. \<not> is_close e \<and> \<not> is_open e \<and> \<not> is_execute e)"
  by (auto simp: open_dev_def get_inode_def Let_def split: prod.splits sum.splits)

lemma execute_replug_no_execute:
  "execute_replug T dev w = (r, dev1, w1, tr) \<Longrightarrow> filter is_execute tr = []"
  by (auto simp: execute_replug_def is_replugged_def close_finally_open_def close_dev_def
        open_dev_def get_inode_def Let_def split: prod.splits sum.splits if_splits)

lemma execute_submit_calls:
  "execute_submit T dev cmd w = (r, cmd1, w1, tr) \<Longrightarrow>
     tr = [] \<or> (\<exists>ro. tr = [EvExecute (fd dev) (transfer_direction cmd) (cdb cmd) (dataout cmd)
                              (datain cmd) (sense cmd) ro])"
  by (auto simp: execute_submit_def Let_def split: prod.splits sum.splits if_splits)

lemma execute_event_from_submit:
  assumes "EvExecute f d c out inp sn r \<in> set (calls (execute T dev cmd w))"
  shows "\<exists>dev1 w1 tr1 rs cmd1 w2.
           execute_replug T dev w = (Inr (), dev1, w1, tr1) \<and>
           execute_submit T dev1 cmd w1 =
             (rs, cmd1, w2, [EvExecute f d c out inp sn r]) \<and>
           result (execute T dev cmd w) = rs \<and> command (execute T dev cmd w) = cmd1"
proof -
  obtain rr dev1 w1 tr1 where rp: "execute_replug T dev w = (rr, dev1, w1, tr1)"
    by (cases "execute_replug T dev w") auto
  obtain rs cmd1 w2 tr2 where sb: "execute_submit T dev1 cmd w1 = (rs, cmd1, w2, tr2)"
    by (cases "execute_submit T dev1 cmd w1") auto
  have "filter is_execute tr1 = []" by (rule execute_replug_no_execute [OF rp])
  then have notin: "EvExecute f d c out inp sn r \<notin> set tr1"
    by (auto simp: filter_empty_conv)
  show ?thesis
  proof (cases rr)
    case (Inl e)
    with assms rp notin show ?thesis by (simp add: execute_def)
  next
    case (Inr u)
    with assms rp sb notin have "EvExecute f d c out inp sn r \<in> set tr2"
      by (simp add: execute_def)
    with execute_submit_calls [OF sb] have "tr2 = [EvExecute f d c out inp sn r]" by auto
    with Inr rp sb show ?thesis by (simp add: execute_def)
  qed
qed

subsection \<open>Construction\<close>

text \<open>
  Claim C10. Constructing a \<^verbatim>\<open>SCSIDevice\<close> on a path whose first five characters
  are not \<^verbatim>\<open>/dev/\<close>, or when the sgio backend could not be imported, raises
  \<^verbatim>\<open>NotImplementedError\<close> with the message of line 77; no collaborator is called (no
  open is attempted, no handle acquired) and the outside world is as it was.
\<close>

theorem init_no_backend:
  assumes "\<not> has_sgio T \<or> take 5 device_path \<noteq> ''/dev/''"
  shows "init T device_path readwrite detect w =
           (Inl (NotImplementedError (''No backend implemented for '' @ device_path)), w, [])"
  using assms by (auto simp: init_def)

theorem init_no_backend_witness:
  "take 5 ''/tmp/sg0'' \<noteq> ''/dev/'' \<and>
   init (mock_sgio (Inr ()) (Inr 4) (Inr 7) (Inr (0, [], []))) ''/tmp/sg0'' False True () =
     (Inl (NotImplementedError ''No backend implemented for /tmp/sg0''), (), []) \<and>
   \<not> has_sgio ((mock_sgio (Inr ()) (Inr 4) (Inr 7) (Inr (0, [], [])))\<lparr>has_sgio := False\<rparr>) \<and>
   init ((mock_sgio (Inr ()) (Inr 4) (Inr 7) (Inr (0, [], [])))\<lparr>has_sgio := False\<rparr>)
       ''/dev/sg0'' False True () =
     (Inl (NotImplementedError ''No backend implemented for /dev/sg0''), (), [])"
proof -
  have a: "take 5 ''/tmp/sg0'' \<noteq> ''/dev/''" by simp
  have b: "\<not> has_sgio ((mock_sgio (Inr ()) (Inr 4) (Inr 7) (Inr (0, [], [])))\<lparr>has_sgio := False\<rparr>)"
    by simp
  show ?thesis
    using a b
      init_no_backend [of "mock_sgio (Inr ()) (Inr 4) (Inr 7) (Inr (0, [], []))"
        "''/tmp/sg0''" False True "()"]
      init_no_backend [of "(mock_sgio (Inr ()) (Inr 4) (Inr 7) (Inr (0, [], [])))\<lparr>has_sgio := False\<rparr>"
        "''/dev/sg0''" False True "()"]
    by simp
qed

subsection \<open>The transfer direction\<close>



subsection \<open>The status the transport returns\<close>

text \<open>
  Claim C7. Whenever the transport's execute returned the check-condition status,
  \<^verbatim>\<open>execute\<close> raises \<^verbatim>\<open>CheckCondition\<close> built from exactly the sense bytes the
  transport left in the command's sense buffer, and the command holds those bytes.
\<close>

theorem execute_check_condition:
  assumes "EvExecute f d c out inp sn (Inr (status, din, sns)) \<in> set (calls (execute T dev cmd w))"
      and "status = CHECK_CONDITION T"
  shows "result (execute T dev cmd w) = Inl (CheckCondition sns) \<and>
         sense (command (execute T dev cmd w)) = sns"
proof -
  from execute_event_from_submit [OF assms(1)] obtain dev1 w1 rs cmd1 w2
    where sb: "execute_submit T dev1 cmd w1 =
                 (rs, cmd1, w2, [EvExecute f d c out inp sn (Inr (status, din, sns))])"
      and rs: "result (execute T dev cmd w) = rs" "command (execute T dev cmd w) = cmd1"
    by blast
  from sb assms(2) have "rs = Inl (CheckCondition sns) \<and> sense cmd1 = sns"
    by (auto simp: execute_submit_def Let_def split: prod.splits sum.splits if_splits)
  with rs show ?thesis by simp
qed

theorem execute_check_condition_witness:
  "EvExecute (Some 3) DXFER_FROM_DEV [0x12, 0, 0, 0, 4, 0] [] [0, 0, 0, 0] [0, 0]
       (Inr (2, [0, 0, 0, 0], [0x70, 5]))
     \<in> set (calls (execute (mock_sgio (Inr ()) (Inr 4) (Inr 5) (Inr (2, [0, 0, 0, 0], [0x70, 5])))
                     sg0 cmd_in ())) \<and>
   2 = CHECK_CONDITION (mock_sgio (Inr ()) (Inr 4) (Inr 5) (Inr (2, [0, 0, 0, 0], [0x70, 5]))) \<and>
   result (execute (mock_sgio (Inr ()) (Inr 4) (Inr 5) (Inr (2, [0, 0, 0, 0], [0x70, 5]))) sg0 cmd_in ()) =
     Inl (CheckCondition [0x70, 5]) \<and>
   sense (command (execute (mock_sgio (Inr ()) (Inr 4) (Inr 5) (Inr (2, [0, 0, 0, 0], [0x70, 5])))
                     sg0 cmd_in ())) = [0x70, 5]"
proof -
  let ?T = "mock_sgio (Inr ()) (Inr 4) (Inr 5) (Inr (2, [0, 0, 0, 0], [0x70, 5]))"
  have ev: "EvExecute (Some 3) DXFER_FROM_DEV [0x12, 0, 0, 0, 4, 0] [] [0, 0, 0, 0] [0, 0]
       (Inr (2, [0, 0, 0, 0], [0x70, 5])) \<in> set (calls (execute ?T sg0 cmd_in ()))"
    by (simp add: run_defs)
  have cc: "2 = CHECK_CONDITION ?T" by (simp add: mock_sgio_def)
  from execute_check_condition [OF ev cc] ev cc show ?thesis by blast
qed

text \<open>
  Claim C1 as stated fails: a status that is neither a success nor a check condition for
  the specification's Status Mapper (8, BUSY, with 0 as the success code and 2 as the
  check-condition code) is returned by the transport, and \<^verbatim>\<open>execute\<close> returns normally.
\<close>

theorem execute_unknown_status_counterexample:
  "status_mapper_spec 0 2 8 = TransportFailure \<and>
   CHECK_CONDITION (mock_sgio (Inr ()) (Inr 4) (Inr 5) (Inr (8, [0, 0, 0, 0], [0, 0]))) = 2 \<and>
   calls (execute (mock_sgio (Inr ()) (Inr 4) (Inr 5) (Inr (8, [0, 0, 0, 0], [0, 0]))) sg0 cmd_in ()) =
     [EvStat ''/dev/sg0'' (Inr 5),
      EvExecute (Some 3) DXFER_FROM_DEV [0x12, 0, 0, 0, 4, 0] [] [0, 0, 0, 0] [0, 0]
        (Inr (8, [0, 0, 0, 0], [0, 0]))] \<and>
   result (execute (mock_sgio (Inr ()) (Inr 4) (Inr 5) (Inr (8, [0, 0, 0, 0], [0, 0]))) sg0 cmd_in ()) =
     Inr ()"
  by (simp add: run_defs status_mapper_spec_def)

text \<open>
  Claim C1, amended. Whenever the transport's execute returned a status other than the
  check-condition code, \<^verbatim>\<open>execute\<close> raises the transport-level error
  \<^verbatim>\<open>SCSISGIOError\<close> exactly when the status equals \<^verbatim>\<open>SGIO_ERROR\<close>, and returns
  normally for every other status, recognised or not.
\<close>

theorem execute_other_status:
  assumes "EvExecute f d c out inp sn (Inr (status, din, sns)) \<in> set (calls (execute T dev cmd w))"
      and "status \<noteq> CHECK_CONDITION T"
  shows "result (execute T dev cmd w) =
           (if status = SGIO_ERROR T then Inl SCSISGIOError else Inr ())"
proof -
  from execute_event_from_submit [OF assms(1)] obtain dev1 w1 rs cmd1 w2
    where sb: "execute_submit T dev1 cmd w1 =
                 (rs, cmd1, w2, [EvExecute f d c out inp sn (Inr (status, din, sns))])"
      and rs: "result (execute T dev cmd w) = rs"
    by blast
  from sb assms(2) have "rs = (if status = SGIO_ERROR T then Inl SCSISGIOError else Inr ())"
    by (auto simp: execute_submit_def Let_def split: prod.splits sum.splits if_splits)
  with rs show ?thesis by simp
qed

theorem execute_other_status_witness:
  "EvExecute (Some 3) DXFER_FROM_DEV [0x12, 0, 0, 0, 4, 0] [] [0, 0, 0, 0] [0, 0]
       (Inr (255, [0, 0, 0, 0], [0, 0]))
     \<in> set (calls (execute (mock_sgio (Inr ()) (Inr 4) (Inr 5) (Inr (255, [0, 0, 0, 0], [0, 0])))
                     sg0 cmd_in ())) \<and>
   255 \<noteq> CHECK_CONDITION (mock_sgio (Inr ()) (Inr 4) (Inr 5) (Inr (255, [0, 0, 0, 0], [0, 0]))) \<and>
   result (execute (mock_sgio (Inr ()) (Inr 4) (Inr 5) (Inr (255, [0, 0, 0, 0], [0, 0]))) sg0 cmd_in ()) =
     Inl SCSISGIOError"
proof -
  let ?T = "mock_sgio (Inr ()) (Inr 4) (Inr 5) (Inr (255, [0, 0, 0, 0], [0, 0]))"
  have ev: "EvExecute (Some 3) DXFER_FROM_DEV [0x12, 0, 0, 0, 4, 0] [] [0, 0, 0, 0] [0, 0]
       (Inr (255, [0, 0, 0, 0], [0, 0])) \<in> set (calls (execute ?T sg0 cmd_in ()))"
    by (simp add: run_defs)
  have ne: "255 \<noteq> CHECK_CONDITION ?T" by (simp add: mock_sgio_def)
  have sg: "255 = SGIO_ERROR ?T" by (simp add: mock_sgio_def)
  from execute_other_status [OF ev ne] sg have "result (execute ?T sg0 cmd_in ()) = Inl SCSISGIOError"
    by simp
  with ev ne show ?thesis by blast
qed

subsection \<open>A transfer in both directions\<close>

text \<open>
  Claim C3, at the code. For every command whose \<^verbatim>\<open>datain\<close> and \<^verbatim>\<open>dataout\<close> are
  both non-empty, when the replug check of lines 130 to 134 raises nothing, \<^verbatim>\<open>execute\<close>
  fails at line 138 before any further collaborator call: the transport's execute is not
  invoked and the command is left as it was. The exception, though, is the
  \<^verbatim>\<open>TypeError\<close> of calling the constant \<^verbatim>\<open>NotImplemented\<close>, not the
  \<^verbatim>\<open>NotImplementedError\<close> that line 77 raises for an unsupported device.
\<close>

theorem execute_bidirectional_TypeError:
  assumes "datain cmd \<noteq> []" and "dataout cmd \<noteq> []"
      and "execute_replug T dev w = (Inr (), dev1, w1, tr1)"
  shows "result (execute T dev cmd w) =
           Inl (TypeError ''NotImplementedType object is not callable'') \<and>
         filter is_execute (calls (execute T dev cmd w)) = [] \<and>
         calls (execute T dev cmd w) = tr1 \<and>
         command (execute T dev cmd w) = cmd"
  using assms execute_replug_no_execute [OF assms(3)]
  by (simp add: execute_def execute_submit_def)

theorem execute_bidirectional_TypeError_witness:
  "datain cmd_both \<noteq> [] \<and> dataout cmd_both \<noteq> [] \<and>
   execute_replug (mock_sgio (Inr ()) (Inr 4) (Inr 5) (Inr (0, [1, 2, 3, 4], [0, 0])))
     (sg0\<lparr>detect_replugged := False\<rparr>) () = (Inr (), sg0\<lparr>detect_replugged := False\<rparr>, (), []) \<and>
   result (execute (mock_sgio (Inr ()) (Inr 4) (Inr 5) (Inr (0, [1, 2, 3, 4], [0, 0])))
             (sg0\<lparr>detect_replugged := False\<rparr>) cmd_both ()) =
     Inl (TypeError ''NotImplementedType object is not callable'') \<and>
   calls (execute (mock_sgio (Inr ()) (Inr 4) (Inr 5) (Inr (0, [1, 2, 3, 4], [0, 0])))
            (sg0\<lparr>detect_replugged := False\<rparr>) cmd_both ()) = []"
proof -
  let ?T = "mock_sgio (Inr ()) (Inr 4) (Inr 5) (Inr (0, [1, 2, 3, 4], [0, 0]))"
  let ?d = "sg0\<lparr>detect_replugged := False\<rparr>"
  have a: "datain cmd_both \<noteq> []" and b: "dataout cmd_both \<noteq> []"
    by (simp_all add: cmd_both_def)
  have rp: "execute_replug ?T ?d () = (Inr (), ?d, (), [])"
    by (simp add: execute_replug_def)
  from execute_bidirectional_TypeError [OF a b rp] a b rp show ?thesis by simp
qed

text \<open>
  Whatever the replug check does, such a command is never submitted and \<^verbatim>\<open>execute\<close>
  never returns normally.
\<close>

lemma execute_bidirectional_never_submits:
  assumes "datain cmd \<noteq> []" and "dataout cmd \<noteq> []"
  shows "(\<exists>e. result (execute T dev cmd w) = Inl e) \<and>
         filter is_execute (calls (execute T dev cmd w)) = [] \<and>
         calls (execute T dev cmd w) = snd (snd (snd (execute_replug T dev w))) \<and>
         command (execute T dev cmd w) = cmd"
proof -
  obtain rr dev1 w1 tr1 where rp: "execute_replug T dev w = (rr, dev1, w1, tr1)"
    by (cases "execute_replug T dev w") auto
  have no: "filter is_execute tr1 = []" by (rule execute_replug_no_execute [OF rp])
  with assms rp show ?thesis
    by (auto simp: execute_def execute_submit_def split: sum.splits)
qed

subsection \<open>The replug check\<close>

text \<open>
  The three ways the repair of lines 131 to 134 can end, after a probe that found another
  inode and a close that returned or raised \<open>rc\<close>: the open raises; the open returns
  and the probe inside \<^verbatim>\<open>open\<close> raises; both return.
\<close>

lemmas replug_defs = execute_replug_def is_replugged_def get_inode_def close_finally_open_def
  close_dev_def open_dev_def Let_def

lemma replug_open_fails:
  assumes "detect_replugged dev"
      and "os_stat_ino T (file_name dev) w = (Inr i, w1)"
      and "Some i \<noteq> ino dev"
      and "sgio_close T (fd dev) w1 = (rc, w2)"
      and "sgio_open T (file_name dev) (read_write dev) w2 = (Inl e, w3)"
  shows "execute_replug T dev w =
           (Inl e, dev, w3,
            [EvStat (file_name dev) (Inr i), EvClose (fd dev) rc,
             EvOpen (file_name dev) (read_write dev) (Inl e)])"
  using assms by (simp add: replug_defs)

lemma replug_probe_fails:
  assumes "detect_replugged dev"
      and "os_stat_ino T (file_name dev) w = (Inr i, w1)"
      and "Some i \<noteq> ino dev"
      and "sgio_close T (fd dev) w1 = (rc, w2)"
      and "sgio_open T (file_name dev) (read_write dev) w2 = (Inr f, w3)"
      and "os_stat_ino T (file_name dev) w3 = (Inl e, w4)"
  shows "execute_replug T dev w =
           (Inl e, dev\<lparr>fd := Some f\<rparr>, w4,
            [EvStat (file_name dev) (Inr i), EvClose (fd dev) rc,
             EvOpen (file_name dev) (read_write dev) (Inr f), EvStat (file_name dev) (Inl e)])"
  using assms by (simp add: replug_defs)

lemma replug_reopened:
  assumes "detect_replugged dev"
      and "os_stat_ino T (file_name dev) w = (Inr i, w1)"
      and "Some i \<noteq> ino dev"
      and "sgio_close T (fd dev) w1 = (rc, w2)"
      and "sgio_open T (file_name dev) (read_write dev) w2 = (Inr f, w3)"
      and "os_stat_ino T (file_name dev) w3 = (Inr j, w4)"
  shows "execute_replug T dev w =
           (rc, dev\<lparr>fd := Some f, ino := Some j\<rparr>, w4,
            [EvStat (file_name dev) (Inr i), EvClose (fd dev) rc,
             EvOpen (file_name dev) (read_write dev) (Inr f), EvStat (file_name dev) (Inr j)])"
  using assms by (simp add: replug_defs)

lemma execute_after_replug_fails:
  assumes "execute_replug T dev w = (Inl e, dev1, w1, tr1)"
  shows "calls (execute T dev cmd w) = tr1" and "result (execute T dev cmd w) = Inl e"
  using assms by (simp_all add: execute_def)

lemma execute_after_replug_ok:
  assumes "execute_replug T dev w = (Inr (), dev1, w1, tr1)"
      and "datain cmd = [] \<or> dataout cmd = []"
  shows "\<exists>r. calls (execute T dev cmd w) =
           tr1 @ [EvExecute (fd dev1) (transfer_direction cmd) (cdb cmd) (dataout cmd)
                    (datain cmd) (sense cmd) r]"
  using assms
  by (auto simp: execute_def execute_submit_def Let_def split: prod.splits sum.splits)

lemma execute_after_replug_both:
  assumes "execute_replug T dev w = (Inr (), dev1, w1, tr1)"
      and "datain cmd \<noteq> []" and "dataout cmd \<noteq> []"
  shows "calls (execute T dev cmd w) = tr1"
  using assms by (simp add: execute_def execute_submit_def)

text \<open>
  Claim C6 as stated fails: on a device found replugged whose close raises, one close and
  one reopen are attempted, but no submission follows them: \<^verbatim>\<open>execute\<close> raises the
  exception of the close and the transport's execute is never called.
\<close>

theorem execute_replugged_no_submit_counterexample:
  "detect_replugged sg0 \<and>
   result (execute (mock_sgio (Inl (OSError ''device gone'')) (Inr 6) (Inr 9) (Inr (0, [1, 2, 3, 4], [0, 0])))
             sg0 cmd_in ()) = Inl (OSError ''device gone'') \<and>
   calls (execute (mock_sgio (Inl (OSError ''device gone'')) (Inr 6) (Inr 9) (Inr (0, [1, 2, 3, 4], [0, 0])))
            sg0 cmd_in ()) =
     [EvStat ''/dev/sg0'' (Inr 9), EvClose (Some 3) (Inl (OSError ''device gone'')),
      EvOpen ''/dev/sg0'' False (Inr 6), EvStat ''/dev/sg0'' (Inr 9)] \<and>
   filter is_execute
     (calls (execute (mock_sgio (Inl (OSError ''device gone'')) (Inr 6) (Inr 9) (Inr (0, [1, 2, 3, 4], [0, 0])))
               sg0 cmd_in ())) = []"
  by (simp add: run_defs)

text \<open>
  Claim C6, amended. On a device with replug detection enabled whose recorded inode
  differs from the one the probe returns, the collaborator calls of \<^verbatim>\<open>execute\<close> start
  with the probe, one close of the recorded handle and one open of the bound path, in this
  order; the open is called on the world the close left, whatever the close returned or
  raised, and there is exactly one close and exactly one open among all the calls. When the
  close and the reopen (the open and its probe) both return and at most one data buffer is
  non-empty, the command is submitted exactly once, after them and on the new handle. The
  command is submitted only then: when the close or the reopen raises, nothing is
  submitted.
\<close>

theorem execute_replugged_calls:
  assumes "detect_replugged dev"
      and "os_stat_ino T (file_name dev) w = (Inr i, w1)"
      and "Some i \<noteq> ino dev"
  shows "(\<exists>rest. calls (execute T dev cmd w) =
            EvStat (file_name dev) (Inr i)
            # EvClose (fd dev) (fst (sgio_close T (fd dev) w1))
            # EvOpen (file_name dev) (read_write dev)
                (fst (sgio_open T (file_name dev) (read_write dev) (snd (sgio_close T (fd dev) w1))))
            # rest
          \<and> filter is_close rest = [] \<and> filter is_open rest = []) \<and>
         length (filter is_close (calls (execute T dev cmd w))) = 1 \<and>
         length (filter is_open (calls (execute T dev cmd w))) = 1 \<and>
         (\<forall>w2 f w3 j w4.
            sgio_close T (fd dev) w1 = (Inr (), w2) \<and>
            sgio_open T (file_name dev) (read_write dev) w2 = (Inr f, w3) \<and>
            os_stat_ino T (file_name dev) w3 = (Inr j, w4) \<and>
            (datain cmd = [] \<or> dataout cmd = []) \<longrightarrow>
            (\<exists>r. calls (execute T dev cmd w) =
               [EvStat (file_name dev) (Inr i), EvClose (fd dev) (Inr ()),
                EvOpen (file_name dev) (read_write dev) (Inr f), EvStat (file_name dev) (Inr j),
                EvExecute (Some f) (transfer_direction cmd) (cdb cmd) (dataout cmd) (datain cmd)
                  (sense cmd) r])) \<and>
         (filter is_execute (calls (execute T dev cmd w)) \<noteq> [] \<longrightarrow>
            fst (sgio_close T (fd dev) w1) = Inr () \<and>
            (\<exists>f w3 j w4.
               sgio_open T (file_name dev) (read_write dev) (snd (sgio_close T (fd dev) w1)) = (Inr f, w3) \<and>
               os_stat_ino T (file_name dev) w3 = (Inr j, w4)) \<and>
            (datain cmd = [] \<or> dataout cmd = []))"
proof -
  obtain rc w2 where cl: "sgio_close T (fd dev) w1 = (rc, w2)"
    by (cases "sgio_close T (fd dev) w1") auto
  obtain ro w3 where op: "sgio_open T (file_name dev) (read_write dev) w2 = (ro, w3)"
    by (cases "sgio_open T (file_name dev) (read_write dev) w2") auto
  show ?thesis
  proof (cases ro)
    case (Inl e)
    note rp = replug_open_fails [OF assms cl op [unfolded Inl]]
    from execute_after_replug_fails(1) [OF rp, of cmd] cl op Inl show ?thesis by simp
  next
    case (Inr f)
    note op' = op [unfolded Inr]
    obtain rs w4 where st: "os_stat_ino T (file_name dev) w3 = (rs, w4)"
      by (cases "os_stat_ino T (file_name dev) w3") auto
    show ?thesis
    proof (cases rs)
      case (Inl e)
      note rp = replug_probe_fails [OF assms cl op' st [unfolded Inl]]
      from execute_after_replug_fails(1) [OF rp, of cmd] cl op' st Inl show ?thesis by simp
    next
      case (Inr j)
      note st' = st [unfolded Inr]
      note rp = replug_reopened [OF assms cl op' st']
      show ?thesis
      proof (cases rc)
        case (Inl e)
        from execute_after_replug_fails(1) [OF rp [unfolded Inl], of cmd] cl op' st' Inl
        show ?thesis by simp
      next
        case (Inr u)
        then have rc: "rc = Inr ()" by simp
        show ?thesis
        proof (cases "datain cmd = [] \<or> dataout cmd = []")
          case True
          from execute_after_replug_ok [OF rp [unfolded rc] True]
          obtain r where "calls (execute T dev cmd w) =
              [EvStat (file_name dev) (Inr i), EvClose (fd dev) (Inr ()),
               EvOpen (file_name dev) (read_write dev) (Inr f), EvStat (file_name dev) (Inr j),
               EvExecute (Some f) (transfer_direction cmd) (cdb cmd) (dataout cmd) (datain cmd)
                 (sense cmd) r]"
            by auto
          with cl op' st' rc True show ?thesis by simp
        next
          case False
          then have "datain cmd \<noteq> []" and "dataout cmd \<noteq> []" by simp_all
          from execute_after_replug_both [OF rp [unfolded rc] this] cl op' st' rc False
          show ?thesis by simp
        qed
      qed
    qed
  qed
qed

theorem execute_replugged_calls_witness:
  "detect_replugged sg0 \<and>
   os_stat_ino (mock_sgio (Inr ()) (Inr 4) (Inr 7) (Inr (0, [1, 2, 3, 4], [0, 0])))
     (file_name sg0) () = (Inr 7, ()) \<and>
   Some 7 \<noteq> ino sg0 \<and>
   (\<exists>r. calls (execute (mock_sgio (Inr ()) (Inr 4) (Inr 7) (Inr (0, [1, 2, 3, 4], [0, 0])))
                 sg0 cmd_in ()) =
        [EvStat ''/dev/sg0'' (Inr 7), EvClose (Some 3) (Inr ()),
         EvOpen ''/dev/sg0'' False (Inr 4), EvStat ''/dev/sg0'' (Inr 7),
         EvExecute (Some 4) DXFER_FROM_DEV [0x12, 0, 0, 0, 4, 0] [] [0, 0, 0, 0] [0, 0] r]) \<and>
   length (filter is_close
     (calls (execute (mock_sgio (Inr ()) (Inr 4) (Inr 7) (Inr (0, [1, 2, 3, 4], [0, 0])))
               sg0 cmd_in ()))) = 1 \<and>
   length (filter is_open
     (calls (execute (mock_sgio (Inr ()) (Inr 4) (Inr 7) (Inr (0, [1, 2, 3, 4], [0, 0])))
               sg0 cmd_in ()))) = 1"
proof -
  let ?T = "mock_sgio (Inr ()) (Inr 4) (Inr 7) (Inr (0, [1, 2, 3, 4], [0, 0]))"
  have a: "detect_replugged sg0" by (simp add: sg0_def)
  have b: "os_stat_ino ?T (file_name sg0) () = (Inr 7, ())" by (simp add: mock_sgio_def)
  have c: "Some 7 \<noteq> ino sg0" by (simp add: sg0_def)
  note t = execute_replugged_calls [OF a b c, of cmd_in]
  from t have "\<exists>r. calls (execute ?T sg0 cmd_in ()) =
        [EvStat ''/dev/sg0'' (Inr 7), EvClose (Some 3) (Inr ()),
         EvOpen ''/dev/sg0'' False (Inr 4), EvStat ''/dev/sg0'' (Inr 7),
         EvExecute (Some 4) DXFER_FROM_DEV [0x12, 0, 0, 0, 4, 0] [] [0, 0, 0, 0] [0, 0] r]"
    by (simp add: sg0_def mock_sgio_def cmd_in_def transfer_direction_def)
  moreover from t have "length (filter is_close (calls (execute ?T sg0 cmd_in ()))) = 1"
    and "length (filter is_open (calls (execute ?T sg0 cmd_in ()))) = 1"
    by simp_all
  ultimately show ?thesis using a b c by simp
qed

text \<open>
  Claim C2 as stated fails: when the close raises and the reopen succeeds,
  \<^verbatim>\<open>execute\<close> raises the exception of the close and the command is not submitted.
\<close>

theorem execute_close_failure_counterexample:
  "result (execute (mock_sgio (Inl (OSError ''close failed'')) (Inr 4) (Inr 7) (Inr (0, [1, 2, 3, 4], [])))
             sg0 cmd_in ()) = Inl (OSError ''close failed'') \<and>
   calls (execute (mock_sgio (Inl (OSError ''close failed'')) (Inr 4) (Inr 7) (Inr (0, [1, 2, 3, 4], [])))
            sg0 cmd_in ()) =
     [EvStat ''/dev/sg0'' (Inr 7), EvClose (Some 3) (Inl (OSError ''close failed'')),
      EvOpen ''/dev/sg0'' False (Inr 4), EvStat ''/dev/sg0'' (Inr 7)]"
  by (simp add: run_defs)

text \<open>
  Claim C2, amended. During the replug repair inside \<^verbatim>\<open>execute\<close>, when the close
  raises and the reopen succeeds, the device holds the new handle and the new inode, but
  the exception of the close is raised again after the reopen: it reaches the caller, and
  the command is not submitted in this call.
\<close>

theorem execute_close_failure_propagates:
  assumes "detect_replugged dev"
      and "os_stat_ino T (file_name dev) w = (Inr i, w1)"
      and "Some i \<noteq> ino dev"
      and "sgio_close T (fd dev) w1 = (Inl e, w2)"
      and "sgio_open T (file_name dev) (read_write dev) w2 = (Inr f, w3)"
      and "os_stat_ino T (file_name dev) w3 = (Inr j, w4)"
  shows "result (execute T dev cmd w) = Inl e \<and>
         device (execute T dev cmd w) = dev\<lparr>fd := Some f, ino := Some j\<rparr> \<and>
         calls (execute T dev cmd w) =
           [EvStat (file_name dev) (Inr i), EvClose (fd dev) (Inl e),
            EvOpen (file_name dev) (read_write dev) (Inr f), EvStat (file_name dev) (Inr j)]"
  using assms
  by (simp add: execute_def execute_replug_def is_replugged_def get_inode_def
        close_finally_open_def close_dev_def open_dev_def Let_def)

theorem execute_close_failure_propagates_witness:
  "detect_replugged sg0 \<and>
   os_stat_ino (mock_sgio (Inl (OSError ''close failed'')) (Inr 4) (Inr 7) (Inr (0, [1, 2, 3, 4], [])))
     (file_name sg0) () = (Inr 7, ()) \<and>
   Some 7 \<noteq> ino sg0 \<and>
   sgio_close (mock_sgio (Inl (OSError ''close failed'')) (Inr 4) (Inr 7) (Inr (0, [1, 2, 3, 4], [])))
     (fd sg0) () = (Inl (OSError ''close failed''), ()) \<and>
   sgio_open (mock_sgio (Inl (OSError ''close failed'')) (Inr 4) (Inr 7) (Inr (0, [1, 2, 3, 4], [])))
     (file_name sg0) (read_write sg0) () = (Inr 4, ()) \<and>
   result (execute (mock_sgio (Inl (OSError ''close failed'')) (Inr 4) (Inr 7) (Inr (0, [1, 2, 3, 4], [])))
             sg0 cmd_in ()) = Inl (OSError ''close failed'') \<and>
   device (execute (mock_sgio (Inl (OSError ''close failed'')) (Inr 4) (Inr 7) (Inr (0, [1, 2, 3, 4], [])))
             sg0 cmd_in ()) = sg0\<lparr>fd := Some 4, ino := Some 7\<rparr>"
proof -
  let ?T = "mock_sgio (Inl (OSError ''close failed'')) (Inr 4) (Inr 7) (Inr (0, [1, 2, 3, 4], []))"
  have a: "detect_replugged sg0" by (simp add: sg0_def)
  have b: "os_stat_ino ?T (file_name sg0) () = (Inr 7, ())" by (simp add: mock_sgio_def)
  have c: "Some 7 \<noteq> ino sg0" by (simp add: sg0_def)
  have d: "sgio_close ?T (fd sg0) () = (Inl (OSError ''close failed''), ())"
    by (simp add: mock_sgio_def)
  have e: "sgio_open ?T (file_name sg0) (read_write sg0) () = (Inr 4, ())"
    by (simp add: mock_sgio_def)
  from execute_close_failure_propagates [OF a b c d e b, of cmd_in] a b c d e
  show ?thesis by simp
qed

section \<open>Properties of the field codec\<close>

subsection \<open>Masks, bytes and buffers\<close>

lemma mask_shift_low_bits: "0 < m \<Longrightarrow> take_bit (mask_shift m) m = 0"
proof (induction m rule: mask_shift.induct)
  case (1 m)
  show ?case
  proof (cases "odd m")
    case True
    then show ?thesis by (simp add: mask_shift.simps [of m])
  next
    case False
    with 1 have pos: "0 < drop_bit 1 m" by (auto simp: drop_bit_eq_div elim!: evenE)
    from False 1 have s: "mask_shift m = Suc (mask_shift (drop_bit 1 m))"
      by (simp add: mask_shift.simps [of m])
    from 1 False pos have "take_bit (mask_shift (drop_bit 1 m)) (drop_bit 1 m) = 0" by simp
    with False show ?thesis by (simp add: s take_bit_Suc drop_bit_eq_div)
  qed
qed

lemma mask_shift_push_drop:
  "0 < m \<Longrightarrow> push_bit (mask_shift m) (drop_bit (mask_shift m) m) = m"
  using bits_ident [of "mask_shift m" m] mask_shift_low_bits [of m] by simp

lemma mask_bytes_bound: "0 < m \<Longrightarrow> m < 2 ^ (8 * mask_bytes m)"
proof (induction m rule: mask_bytes.induct)
  case (1 m)
  show ?case
  proof (cases "m \<le> 255")
    case True
    then show ?thesis by (simp add: mask_bytes.simps [of m])
  next
    case False
    then have pos: "0 < drop_bit 8 m" by (simp add: drop_bit_eq_div)
    from False have s: "mask_bytes m = Suc (mask_bytes (drop_bit 8 m))"
      by (simp add: mask_bytes.simps [of m])
    from 1 False pos have "drop_bit 8 m < 2 ^ (8 * mask_bytes (drop_bit 8 m))" by simp
    then have "m div 256 < 2 ^ (8 * mask_bytes (drop_bit 8 m))" by (simp add: drop_bit_eq_div)
    then have "m < 256 * 2 ^ (8 * mask_bytes (drop_bit 8 m))" by linarith
    then show ?thesis by (simp add: s power_add)
  qed
qed

lemma take_bit_split:
  "take_bit (n + k) (x::int) = take_bit n x + push_bit n (take_bit k (drop_bit n x))"
proof -
  have "take_bit (n + k) x = concat_bit n x (take_bit k (drop_bit n x))"
    by (rule bit_eqI) (auto simp: bit_simps)
  then show ?thesis by (simp add: concat_bit_eq)
qed

lemma length_int_to_ba [simp]: "length (int_to_ba n x) = n"
  by (induction n arbitrary: x) auto

lemma ba_to_int_snoc: "ba_to_int (bs @ [b]) = ba_to_int bs * 256 + uint b"
  by (simp add: ba_to_int_def)

lemma ba_to_int_int_to_ba: "ba_to_int (int_to_ba n x) = take_bit (8 * n) x"
proof (induction n arbitrary: x)
  case 0
  then show ?case by (simp add: ba_to_int_def)
next
  case (Suc n)
  have "take_bit (8 * Suc n) x = take_bit 8 x + push_bit 8 (take_bit (8 * n) (drop_bit 8 x))"
    using take_bit_split [of 8 "8 * n" x] by simp
  with Suc show ?case
    by (simp add: ba_to_int_snoc uint_word_of_int_eq push_bit_eq_mult)
qed

lemma int_to_ba_zero: "int_to_ba n 0 = replicate n 0"
  by (induction n) (auto simp: replicate_append_same)


lemma or_bytes_length [simp]:
  "off + length bs \<le> length buf \<Longrightarrow> length (or_bytes buf off bs) = length buf"
  by (simp add: or_bytes_def)

lemma or_bytes_zero:
  assumes "off + n \<le> length buf"
  shows "or_bytes buf off (replicate n 0) = buf"
proof -
  have "map2 (OR) (take n (drop off buf)) (replicate n 0) = take n (drop off buf)"
    using assms by (auto simp: list_eq_iff_nth_eq)
  then have "or_bytes buf off (replicate n 0) = take off buf @ take n (drop off buf) @ drop (off + n) buf"
    by (simp add: or_bytes_def)
  also have "\<dots> = take off buf @ drop off buf"
    by (metis append_take_drop_id drop_drop add.commute)
  finally show ?thesis by simp
qed

lemma or_bytes_read:
  assumes "off + length bs \<le> length buf"
      and "take (length bs) (drop off buf) = replicate (length bs) 0"
  shows "take (length bs) (drop off (or_bytes buf off bs)) = bs"
proof -
  have "map2 (OR) (replicate (length bs) 0) bs = bs"
    by (auto simp: list_eq_iff_nth_eq)
  with assms show ?thesis by (simp add: or_bytes_def)
qed

lemma drop_bit_of_push_bit: "drop_bit n (push_bit n (a::int)) = a"
  by (simp add: drop_bit_push_bit)

lemma encode_field_zero [simp]: "encode_field m 0 = 0"
  by (simp add: encode_field_def)

lemma encode_field_range:
  assumes "0 < m"
  shows "0 \<le> encode_field m v" and "encode_field m v < 2 ^ (8 * mask_bytes m)"
proof -
  let ?s = "mask_shift m"
  from assms have nn: "0 \<le> drop_bit ?s m" by simp
  then have "0 \<le> v AND drop_bit ?s m" by simp
  then show "0 \<le> encode_field m v" unfolding encode_field_def by simp
  from nn have "v AND drop_bit ?s m \<le> drop_bit ?s m" by (rule AND_upper2)
  then have "push_bit ?s (v AND drop_bit ?s m) \<le> push_bit ?s (drop_bit ?s m)"
    unfolding push_bit_eq_mult by (rule mult_right_mono) simp
  also have "\<dots> = m" using assms by (rule mask_shift_push_drop)
  also have "m < 2 ^ (8 * mask_bytes m)" using assms by (rule mask_bytes_bound)
  finally show "encode_field m v < 2 ^ (8 * mask_bytes m)" unfolding encode_field_def .
qed

lemma encode_field_and_mask:
  assumes "0 < m"
  shows "encode_field m v AND m = encode_field m v"
proof -
  let ?s = "mask_shift m"
  have "encode_field m v AND m = push_bit ?s (v AND drop_bit ?s m) AND push_bit ?s (drop_bit ?s m)"
    using assms unfolding encode_field_def by (simp only: mask_shift_push_drop)
  also have "\<dots> = push_bit ?s ((v AND drop_bit ?s m) AND drop_bit ?s m)"
    by (simp only: push_bit_and)
  also have "(v AND drop_bit ?s m) AND drop_bit ?s m = v AND drop_bit ?s m"
    by (simp only: and.assoc and.idem)
  finally show ?thesis unfolding encode_field_def .
qed

lemma decode_encode_field:
  assumes "0 < m"
  shows "decode_field m (take_bit (8 * mask_bytes m) (encode_field m v)) = v AND drop_bit (mask_shift m) m"
proof -
  have "take_bit (8 * mask_bytes m) (encode_field m v) = encode_field m v"
    using encode_field_range [OF assms, of v] by (simp only: take_bit_int_eq_self)
  then have "decode_field m (take_bit (8 * mask_bytes m) (encode_field m v)) =
             drop_bit (mask_shift m) (encode_field m v)"
    unfolding decode_field_def by (simp only: encode_field_and_mask [OF assms])
  also have "\<dots> = v AND drop_bit (mask_shift m) m"
    unfolding encode_field_def by (simp only: drop_bit_of_push_bit)
  finally show ?thesis .
qed

lemma pack_field_roundtrip:
  assumes "0 < m" and "off + mask_bytes m \<le> length buf"
      and "take (mask_bytes m) (drop off buf) = replicate (mask_bytes m) 0"
  shows "\<exists>buf1. pack_field (m, off) v buf = Inr buf1 \<and> length buf1 = length buf \<and>
           read_field (m, off) buf1 = v AND drop_bit (mask_shift m) m"
proof -
  let ?bs = "int_to_ba (mask_bytes m) (encode_field m v)"
  have p: "pack_field (m, off) v buf = Inr (or_bytes buf off ?bs)"
    using assms by (simp add: pack_field_def)
  have r: "take (mask_bytes m) (drop off (or_bytes buf off ?bs)) = ?bs"
    using or_bytes_read [of off ?bs buf] assms by simp
  have "read_field (m, off) (or_bytes buf off ?bs) = v AND drop_bit (mask_shift m) m"
    using decode_encode_field [OF assms(1), of v]
    by (simp add: read_field_def r ba_to_int_int_to_ba)
  with p assms show ?thesis by simp
qed

lemma pack_field_zero:
  assumes "0 < m" and "off + mask_bytes m \<le> length buf"
  shows "pack_field (m, off) 0 buf = Inr buf"
  using assms by (simp add: pack_field_def int_to_ba_zero or_bytes_zero)

lemma pack_fields_absent:
  assumes "name \<notin> set (map fst layout)" and "list_all (wf_field (length buf)) (map snd layout)"
  shows "pack_fields layout [(name, v)] buf = Inr buf"
  using assms
proof (induction layout)
  case Nil
  then show ?case by simp
next
  case (Cons a layout)
  obtain n m off where a: "a = (n, (m, off))" by (cases a) auto
  with Cons.prems have "field_value [(name, v)] n = 0" by (auto simp: field_value_def)
  moreover from a Cons.prems have "pack_field (m, off) 0 buf = Inr buf"
    by (intro pack_field_zero) (auto simp: wf_field_def)
  ultimately show ?case using Cons a by simp
qed

lemma pack_fields_single:
  assumes "distinct (map fst layout)" and "list_all (wf_field (length buf)) (map snd layout)"
      and "(name, f) \<in> set layout"
  shows "pack_fields layout [(name, v)] buf = pack_field f v buf"
  using assms
proof (induction layout)
  case Nil
  then show ?case by simp
next
  case (Cons a layout)
  obtain n m off where a: "a = (n, (m, off))" by (cases a) auto
  show ?case
  proof (cases "n = name")
    case True
    with a Cons.prems have f: "f = (m, off)"
      by (auto simp: image_iff)
    from a True have fv: "field_value [(name, v)] n = v" by (simp add: field_value_def)
    show ?thesis
    proof (cases "pack_field (m, off) v buf")
      case (Inl e)
      with a f fv show ?thesis by simp
    next
      case (Inr buf1)
      then have len: "length buf1 = length buf"
        by (auto simp: pack_field_def split: if_splits)
      from a True Cons.prems have "name \<notin> set (map fst layout)" by auto
      moreover from Cons.prems len have "list_all (wf_field (length buf1)) (map snd layout)" by simp
      ultimately have "pack_fields layout [(name, v)] buf1 = Inr buf1" by (rule pack_fields_absent)
      with a f fv Inr show ?thesis by simp
    qed
  next
    case False
    with a have fv: "field_value [(name, v)] n = 0" by (simp add: field_value_def)
    from a Cons.prems have z: "pack_field (m, off) 0 buf = Inr buf"
      by (intro pack_field_zero) (auto simp: wf_field_def)
    from False a Cons.prems have "(name, f) \<in> set layout" by auto
    with Cons have "pack_fields layout [(name, v)] buf = pack_field f v buf" by simp
    with a fv z show ?thesis by simp
  qed
qed

lemma Unpack_wf:
  assumes "list_all (wf_field (length buf)) (map snd layout)"
  shows "Unpack layout buf = Inr (map (\<lambda>(n, f). (n, read_field f buf)) layout)"
  using assms
proof (induction layout)
  case Nil
  then show ?case by simp
next
  case (Cons a layout)
  obtain n m off where a: "a = (n, (m, off))" by (cases a) auto
  with Cons.prems have "unpack_field (m, off) buf = Inr (read_field (m, off) buf)"
    by (simp add: unpack_field_def read_field_def wf_field_def)
  with Cons a show ?case by simp
qed

lemma map_of_layout_map:
  assumes "distinct (map fst layout)" and "(name, f) \<in> set layout"
  shows "map_of (map (\<lambda>(n, f). (n, g f)) layout) name = Some (g f)"
  using assms by (induction layout) (auto simp: image_iff)

subsection \<open>One field of a layout\<close>

lemma contiguous_and:
  assumes "contiguous_mask m"
  shows "v AND drop_bit (mask_shift m) m = take_bit (field_width m) v"
proof -
  from assms have "drop_bit (mask_shift m) m = mask (field_width m)"
    by (simp add: contiguous_mask_def mask_eq_exp_minus_1)
  then show ?thesis by (simp only: take_bit_eq_mask)
qed

lemma wf_layout_field:
  assumes "wf_layout layout n" and "(name, (m, off)) \<in> set layout"
  shows "0 < m" and "contiguous_mask m" and "off + mask_bytes m \<le> n"
proof -
  from assms have "wf_field n (m, off)"
    by (force simp: wf_layout_def list_all_iff)
  then show "0 < m" and "contiguous_mask m" and "off + mask_bytes m \<le> n"
    by (simp_all add: wf_field_def)
qed

lemma Pack_single_field:
  assumes "wf_layout layout n" and "(name, (m, off)) \<in> set layout"
  shows "\<exists>buf. Pack layout [(name, v)] (replicate n 0) = Inr buf \<and>
           pack_field (m, off) v (replicate n 0) = Inr buf \<and>
           Unpack layout buf = Inr (map (\<lambda>(k, f). (k, read_field f buf)) layout) \<and>
           map_of (map (\<lambda>(k, f). (k, read_field f buf)) layout) name =
             Some (take_bit (field_width m) v)"
proof -
  let ?z = "replicate n (0::byte)"
  note f = wf_layout_field [OF assms]
  from assms have d: "distinct (map fst layout)"
    and w: "list_all (wf_field (length ?z)) (map snd layout)"
    by (simp_all add: wf_layout_def)
  have zero: "take (mask_bytes m) (drop off ?z) = replicate (mask_bytes m) 0"
    using f(3) by simp
  from pack_field_roundtrip [of m off ?z v] f zero
  obtain buf where pf: "pack_field (m, off) v ?z = Inr buf" and len: "length buf = n"
    and rd: "read_field (m, off) buf = v AND drop_bit (mask_shift m) m"
    by auto
  from assms(2) have "name \<in> set (map fst layout)" by force
  then have "Pack layout [(name, v)] ?z = pack_fields layout [(name, v)] ?z"
    by (simp add: Pack_def)
  also have "\<dots> = pack_field (m, off) v ?z"
    using d w assms(2) by (rule pack_fields_single)
  finally have pk: "Pack layout [(name, v)] ?z = Inr buf" using pf by simp
  from w len have "list_all (wf_field (length buf)) (map snd layout)" by simp
  then have un: "Unpack layout buf = Inr (map (\<lambda>(k, f). (k, read_field f buf)) layout)"
    by (rule Unpack_wf)
  have "map_of (map (\<lambda>(k, f). (k, read_field f buf)) layout) name = Some (read_field (m, off) buf)"
    using d assms(2) by (rule map_of_layout_map)
  with rd contiguous_and [OF f(2)]
  have "map_of (map (\<lambda>(k, f). (k, read_field f buf)) layout) name = Some (take_bit (field_width m) v)"
    by simp
  with pk pf un show ?thesis by blast
qed

subsection \<open>Round trip\<close>

text \<open>
  Claim C4. For every well-formed layout, every field of it and every integer \<open>v\<close>
  that fits within the field's width (\<open>0 \<le> v < 2 ^ field_width m\<close>), packing \<open>v\<close>
  for that field alone into a zero buffer sized for the layout succeeds, and unpacking the
  buffer with the same layout returns \<open>v\<close> for that field. Fields over several bytes,
  aligned to a byte or not, are included: their bytes are written and read big-endian.
\<close>

theorem pack_unpack_roundtrip:
  assumes "wf_layout layout n" and "(name, (m, off)) \<in> set layout"
      and "0 \<le> v" and "v < 2 ^ field_width m"
  shows "\<exists>buf r. Pack layout [(name, v)] (replicate n 0) = Inr buf \<and>
                 Unpack layout buf = Inr r \<and> map_of r name = Some v"
proof -
  from assms(3,4) have "take_bit (field_width m) v = v" by (simp add: take_bit_int_eq_self)
  with Pack_single_field [OF assms(1,2), of v] show ?thesis by auto
qed

theorem pack_unpack_roundtrip_witness:
  "wf_layout readcapacity16_datain_bits 16 \<and> (''lowest_aligned_lba'', (0x3fff, 14)) \<in> set readcapacity16_datain_bits \<and>
   (0::int) \<le> 8193 \<and> (8193::int) < 2 ^ field_width 0x3fff \<and>
   (\<exists>buf r. Pack readcapacity16_datain_bits [(''lowest_aligned_lba'', 8193)] (replicate 16 0) = Inr buf \<and>
            Unpack readcapacity16_datain_bits buf = Inr r \<and> map_of r ''lowest_aligned_lba'' = Some 8193)"
proof -
  have a: "wf_layout readcapacity16_datain_bits 16" by code_simp
  have b: "(''lowest_aligned_lba'', (0x3fff, 14)) \<in> set readcapacity16_datain_bits" by (simp add: readcapacity16_datain_bits_def)
  have c: "(0::int) \<le> 8193" by simp
  have d: "(8193::int) < 2 ^ field_width 0x3fff" by code_simp
  from pack_unpack_roundtrip [OF a b c d] a b c d show ?thesis by blast
qed

text \<open>
  The byte order of that 14-bit field, and the agreement of \<open>Unpack\<close> and \<open>Pack\<close>
  with the repository's test: the bytes of its mock device decode to the values it asserts,
  and these values pack to the same bytes (lines 34 and 35 of the test).
\<close>

lemma readcapacity16_big_endian:
  "Pack readcapacity16_datain_bits [(''lowest_aligned_lba'', 8193)] (replicate 16 0) =
     Inr [0, 0, 0, 0, 0, 0, 0, 0, 0, 0, 0, 0, 0, 0, 0x20, 0x01]"
  by code_simp

lemma readcapacity16_test:
  "Unpack readcapacity16_datain_bits [0x00, 0x01, 0x00, 0x00, 0x00, 0x00, 0x00, 0x00, 0x00, 0x00, 0x10, 0x00,
       0x09, 0x88, 0xe0, 0x01] =
     Inr [(''returned_lba'', 281474976710656), (''block_length'', 4096), (''p_type'', 4),
          (''prot_en'', 1), (''p_i_exponent'', 8), (''lbppbe'', 8), (''lbpme'', 1),
          (''lbprz'', 1), (''lowest_aligned_lba'', 8193)]"
  by code_simp

lemma readcapacity16_marshall:
  "Pack readcapacity16_datain_bits
     [(''returned_lba'', 281474976710656), (''block_length'', 4096), (''p_type'', 4),
      (''prot_en'', 1), (''p_i_exponent'', 8), (''lbppbe'', 8), (''lbpme'', 1),
      (''lbprz'', 1), (''lowest_aligned_lba'', 8193)]
     (replicate 16 0) =
     Inr [0x00, 0x01, 0x00, 0x00, 0x00, 0x00, 0x00, 0x00, 0x00, 0x00, 0x10, 0x00,
          0x09, 0x88, 0xe0, 0x01]"
  by code_simp

subsection \<open>Truncation\<close>

text \<open>
  Claim C9. For every field of a well-formed layout and every integer \<open>v\<close>, of any
  size, packing \<open>v\<close> raises no error and stores what packing the low-order
  \<open>field_width m\<close> bits of \<open>v\<close> stores: the buffers are equal, and unpacking returns
  \<open>v mod 2 ^ field_width m\<close>. Packing 0x1ff into an 8-bit field yields the byte 0xff.
\<close>

theorem pack_truncates:
  assumes "wf_layout layout n" and "(name, (m, off)) \<in> set layout"
  shows "Pack layout [(name, v)] (replicate n 0) =
           Pack layout [(name, v mod 2 ^ field_width m)] (replicate n 0) \<and>
         (\<exists>buf r. Pack layout [(name, v)] (replicate n 0) = Inr buf \<and>
                   Unpack layout buf = Inr r \<and>
                   map_of r name = Some (v mod 2 ^ field_width m))"
proof -
  let ?z = "replicate n (0::byte)"
  let ?t = "v mod 2 ^ field_width m"
  note f = wf_layout_field [OF assms]
  have "encode_field m ?t = encode_field m v"
    unfolding encode_field_def contiguous_and [OF f(2)] by (simp add: take_bit_eq_mod)
  then have same: "pack_field (m, off) ?t ?z = pack_field (m, off) v ?z"
    by (simp add: pack_field_def)
  from Pack_single_field [OF assms, of v] obtain buf
    where a: "Pack layout [(name, v)] ?z = Inr buf" "pack_field (m, off) v ?z = Inr buf"
      and b: "Unpack layout buf = Inr (map (\<lambda>(k, f). (k, read_field f buf)) layout)"
      and c: "map_of (map (\<lambda>(k, f). (k, read_field f buf)) layout) name = Some (take_bit (field_width m) v)"
    by blast
  from Pack_single_field [OF assms, of ?t] obtain buf'
    where a': "Pack layout [(name, ?t)] ?z = Inr buf'" "pack_field (m, off) ?t ?z = Inr buf'"
    by blast
  from a a' same have "Pack layout [(name, v)] ?z = Pack layout [(name, ?t)] ?z" by simp
  moreover from c have "map_of (map (\<lambda>(k, f). (k, read_field f buf)) layout) name = Some ?t"
    by (simp add: take_bit_eq_mod)
  ultimately show ?thesis using a b by blast
qed

theorem pack_truncates_witness:
  "wf_layout one_byte_layout 1 \<and> (''f'', (0xff, 0)) \<in> set one_byte_layout \<and>
   Pack one_byte_layout [(''f'', 0x1ff)] [0] = Inr [0xff]"
proof -
  have a: "wf_layout one_byte_layout 1" by code_simp
  have b: "(''f'', (0xff, 0)) \<in> set one_byte_layout" by (simp add: one_byte_layout_def)
  have w: "(0x1ff::int) mod 2 ^ field_width 0xff = 0xff" by code_simp
  have p: "Pack one_byte_layout [(''f'', 0xff)] (replicate 1 0) = Inr [0xff]" by code_simp
  from pack_truncates [OF a b, of "0x1ff"]
  have "Pack one_byte_layout [(''f'', 0x1ff)] (replicate 1 0) =
        Pack one_byte_layout [(''f'', 0x1ff mod 2 ^ field_width 0xff)] (replicate 1 0)"
    by blast
  with w p have "Pack one_byte_layout [(''f'', 0x1ff)] [0] = Inr [0xff]" by simp
  with a b show ?thesis by blast
qed

subsection \<open>The command block of POSITION TO ELEMENT\<close>

text \<open>
  Claim C5. Packing the layout of \<^verbatim>\<open>PositionToElement\<close> with opcode 0x2B, medium
  transport address 0x0010, destination address 0x0020 and invert 1 into nine zero bytes
  yields the bytes 2B 00 00 10 00 20 00 00 01, and unpacking these bytes with the same
  layout returns the four values.
\<close>

theorem position_to_element_cdb:
  "Pack PositionToElement_cdb_bits
     [(''opcode'', 0x2B), (''medium_transport_address'', 0x0010),
      (''destination_address'', 0x0020), (''invert'', 1)]
     (replicate 9 0) = Inr [0x2B, 0x00, 0x00, 0x10, 0x00, 0x20, 0x00, 0x00, 0x01] \<and>
   Unpack PositionToElement_cdb_bits [0x2B, 0x00, 0x00, 0x10, 0x00, 0x20, 0x00, 0x00, 0x01] =
     Inr [(''opcode'', 0x2B), (''medium_transport_address'', 0x0010),
          (''destination_address'', 0x0020), (''invert'', 1)]"
proof
  show "Pack PositionToElement_cdb_bits
     [(''opcode'', 0x2B), (''medium_transport_address'', 0x0010),
      (''destination_address'', 0x0020), (''invert'', 1)]
     (replicate 9 0) = Inr [0x2B, 0x00, 0x00, 0x10, 0x00, 0x20, 0x00, 0x00, 0x01]"
    by code_simp
  show "Unpack PositionToElement_cdb_bits [0x2B, 0x00, 0x00, 0x10, 0x00, 0x20, 0x00, 0x00, 0x01] =
     Inr [(''opcode'', 0x2B), (''medium_transport_address'', 0x0010),
          (''destination_address'', 0x0020), (''invert'', 1)]"
    by code_simp
qed

theorem position_to_element_cdb_witness:
  "\<exists>buf. Pack PositionToElement_cdb_bits
            [(''opcode'', 0x2B), (''medium_transport_address'', 0x0010),
             (''destination_address'', 0x0020), (''invert'', 1)]
            (replicate 9 0) = Inr buf \<and>
         length buf = 9 \<and>
         Unpack PositionToElement_cdb_bits buf =
           Inr [(''opcode'', 0x2B), (''medium_transport_address'', 0x0010),
                (''destination_address'', 0x0020), (''invert'', 1)]"
  using position_to_element_cdb by simp

end
